theory Spec2Isabelle
  imports Main
begin

section \<open>JavaScript values\<close>

text \<open>
  The pages under study (\<^verbatim>\<open>InternHome.js\<close> and \<^verbatim>\<open>InternTasks.js\<close>) handle untyped
  JSON data: user records, task rows, realtime payloads. A value is one of the
  ECMAScript kinds below. Numbers are kept abstract (type parameter \<open>'n\<close>): what the
  language does with them comes from the record \<open>builtins\<close>. An object or array that
  reaches the program carries the address it lives at, since \<^verbatim>\<open>===\<close> on two objects
  compares addresses. An object is the list of its own properties, first binding wins.
\<close>

datatype 'n jsval =
    JUndefined
  | JNull
  | JBool bool
  | JNum 'n
  | JStr string
  | JArr nat "'n jsval list"
  | JObj nat "(string \<times> 'n jsval) list"

text \<open>
  An array the program builds itself (\<^verbatim>\<open>[]\<close>, \<^verbatim>\<open>[arr]\<close>, the result of \<^verbatim>\<open>filter\<close>, of
  \<^verbatim>\<open>map\<close>, of a spread) is held by its elements: it is stored in component state or
  consumed at once and its address is never compared. A variable that may hold such an
  array or any other value has type \<open>listval\<close>.
\<close>

datatype 'n listval =
    Items "'n jsval list"
  | NotArray "'n jsval"

fun as_listval :: "'n jsval \<Rightarrow> 'n listval" where
  "as_listval (JArr r xs) = Items xs"
| "as_listval v = NotArray v"

text \<open>An exception: a \<^verbatim>\<open>TypeError\<close> of the language, a \<^verbatim>\<open>SyntaxError\<close> of
  \<^verbatim>\<open>JSON.parse\<close>, or the rejection of an awaited call to an external service.\<close>

datatype js_error = TypeError | SyntaxError | Rejected string

text \<open>
  The built-ins of the host that are not code of this repository: the number
  operations of ECMAScript and \<^verbatim>\<open>JSON.parse\<close>. Every theorem below holds for all of them.
\<close>

record 'n builtins =
  num_truthy :: "'n \<Rightarrow> bool"  \<comment> \<open>ToBoolean: false at +0, -0 and NaN\<close>
  num_to_string :: "'n \<Rightarrow> string"  \<comment> \<open>Number::toString\<close>
  num_eq :: "'n \<Rightarrow> 'n \<Rightarrow> bool"  \<comment> \<open>Number::equal: false when a side is NaN\<close>
  num_is_nan :: "'n \<Rightarrow> bool"  \<comment> \<open>Number.isNaN\<close>
  num_nan :: "'n"  \<comment> \<open>Number(undefined)\<close>
  num_zero :: "'n"  \<comment> \<open>Number(null)\<close>
  num_of_bool :: "bool \<Rightarrow> 'n"  \<comment> \<open>Number(true), Number(false)\<close>
  string_to_num :: "string \<Rightarrow> 'n"  \<comment> \<open>StringToNumber\<close>
  json_parse :: "string \<Rightarrow> js_error + 'n jsval"  \<comment> \<open>JSON.parse\<close>

text \<open>ToBoolean, as used by \<^verbatim>\<open>!x\<close>, \<^verbatim>\<open>x && y\<close>, \<^verbatim>\<open>x || y\<close>, \<^verbatim>\<open>if (x)\<close> and
  \<^verbatim>\<open>filter(Boolean)\<close>.\<close>

fun truthy :: "'n builtins \<Rightarrow> 'n jsval \<Rightarrow> bool" where
  "truthy B JUndefined = False"
| "truthy B JNull = False"
| "truthy B (JBool b) = b"
| "truthy B (JNum n) = num_truthy B n"
| "truthy B (JStr s) = (s \<noteq> [])"
| "truthy B (JArr r xs) = True"
| "truthy B (JObj r fs) = True"

text \<open>\<^verbatim>\<open>a || b\<close> on values.\<close>

definition js_or :: "'n builtins \<Rightarrow> 'n jsval \<Rightarrow> 'n jsval \<Rightarrow> 'n jsval" where
  "js_or B a b = (if truthy B a then a else b)"

fun join_with :: "string \<Rightarrow> string list \<Rightarrow> string" where
  "join_with sep [] = []"
| "join_with sep [x] = x"
| "join_with sep (x # y # ys) = x @ sep @ join_with sep (y # ys)"

text \<open>ToString, as used by \<^verbatim>\<open>String(x)\<close> and by a template literal. An array joins its
  elements with a comma, \<^verbatim>\<open>null\<close> and \<^verbatim>\<open>undefined\<close> elements printing as nothing; a plain
  object prints as \<^verbatim>\<open>[object Object]\<close>.\<close>

fun to_string :: "'n builtins \<Rightarrow> 'n jsval \<Rightarrow> string" where
  "to_string B JUndefined = ''undefined''"
| "to_string B JNull = ''null''"
| "to_string B (JBool b) = (if b then ''true'' else ''false'')"
| "to_string B (JNum n) = num_to_string B n"
| "to_string B (JStr s) = s"
| "to_string B (JArr r xs) =
     join_with '','' (map (\<lambda>x. if x = JUndefined \<or> x = JNull then [] else to_string B x) xs)"
| "to_string B (JObj r fs) = ''[object Object]''"

text \<open>ToNumber, as used by \<^verbatim>\<open>Number(x)\<close>: an object goes through its string.\<close>

fun to_number :: "'n builtins \<Rightarrow> 'n jsval \<Rightarrow> 'n" where
  "to_number B JUndefined = num_nan B"
| "to_number B JNull = num_zero B"
| "to_number B (JBool b) = num_of_bool B b"
| "to_number B (JNum n) = n"
| "to_number B (JStr s) = string_to_num B s"
| "to_number B (JArr r xs) = string_to_num B (to_string B (JArr r xs))"
| "to_number B (JObj r fs) = string_to_num B (to_string B (JObj r fs))"

text \<open>Strict equality \<^verbatim>\<open>a === b\<close>: same kind and same value; objects by address.\<close>

fun strict_eq :: "'n builtins \<Rightarrow> 'n jsval \<Rightarrow> 'n jsval \<Rightarrow> bool" where
  "strict_eq B JUndefined JUndefined = True"
| "strict_eq B JNull JNull = True"
| "strict_eq B (JBool a) (JBool b) = (a = b)"
| "strict_eq B (JNum a) (JNum b) = num_eq B a b"
| "strict_eq B (JStr a) (JStr b) = (a = b)"
| "strict_eq B (JArr r xs) (JArr r' ys) = (r = r')"
| "strict_eq B (JObj r fs) (JObj r' gs) = (r = r')"
| "strict_eq B a b = False"

definition nullish :: "'n jsval \<Rightarrow> bool" where
  "nullish v = (v = JUndefined \<or> v = JNull)"

text \<open>
  Reading a property. On \<^verbatim>\<open>null\<close> and \<^verbatim>\<open>undefined\<close> the read throws a TypeError. The
  property names this program reads (\<^verbatim>\<open>id\<close>, \<^verbatim>\<open>user_id\<close>, \<^verbatim>\<open>data\<close>, \<^verbatim>\<open>task\<close>, ...) are
  own properties of objects only: on a string, number, boolean or array the read is
  \<^verbatim>\<open>undefined\<close>. \<open>js_get\<close> is the read where the receiver is known not to be nullish.
\<close>

fun js_get :: "'n jsval \<Rightarrow> string \<Rightarrow> 'n jsval" where
  "js_get (JObj r fs) k = (case map_of fs k of Some v \<Rightarrow> v | None \<Rightarrow> JUndefined)"
| "js_get v k = JUndefined"

definition get_prop :: "'n jsval \<Rightarrow> string \<Rightarrow> js_error + 'n jsval" where
  "get_prop v k = (if nullish v then Inl TypeError else Inr (js_get v k))"

text \<open>Optional chaining \<^verbatim>\<open>v?.k\<close>.\<close>

definition opt_chain :: "'n jsval \<Rightarrow> string \<Rightarrow> 'n jsval" where
  "opt_chain v k = (if nullish v then JUndefined else js_get v k)"

text \<open>\<^verbatim>\<open>typeof c === "string" && c.includes("-")\<close>: the shape test both lookups of the
  resolver apply to a candidate.\<close>

fun looks_like_uuid :: "'n jsval \<Rightarrow> bool" where
  "looks_like_uuid (JStr s) = (CHR ''-'' \<in> set s)"
| "looks_like_uuid v = False"

section \<open>External services\<close>

text \<open>
  What the awaited calls give back: \<open>Inl\<close> when the call throws or its promise is
  rejected, \<open>Inr v\<close> when it resolves to \<open>v\<close>. The calls a function makes, and what it
  logs, are returned as a list of effects in the order they happen.
\<close>

record 'n services =
  auth_getUser :: "js_error + 'n jsval"
    \<comment> \<open>\<^verbatim>\<open>await supabase.auth.getUser?.()\<close>\<close>
  employee_by_id :: "'n \<Rightarrow> js_error + 'n jsval"
    \<comment> \<open>\<^verbatim>\<open>await supabase.from("employee").select(cols).eq("id", n).maybeSingle()\<close>\<close>
  api_get_tasks :: "js_error + 'n jsval"
    \<comment> \<open>\<^verbatim>\<open>await api.get("/tasks")\<close>\<close>
  api_put_task :: "string \<Rightarrow> 'n jsval \<Rightarrow> js_error option"
    \<comment> \<open>\<^verbatim>\<open>await api.put(url, {status})\<close>; \<open>None\<close> when it resolves\<close>
  broadcast_channel :: bool
    \<comment> \<open>\<^verbatim>\<open>"BroadcastChannel" in window\<close>\<close>
  publish_fails :: bool
    \<comment> \<open>opening the channel or posting the message (or writing the storage key) throws\<close>

datatype 'n effect =
    AuthGetUser
  | EmployeeSelect 'n
  | ApiGetTasks
  | ApiPutTask string "'n jsval"
  | PostMessage
  | StoragePing
  | ConsoleError string
  | ConsoleWarn string
  | ToastError string

text \<open>Effects among which the task endpoint is not called and no error is reported.\<close>

fun silent :: "'n effect \<Rightarrow> bool" where
  "silent ApiGetTasks = False"
| "silent (ConsoleError m) = False"
| "silent (ToastError m) = False"
| "silent e = True"

section \<open>InternHome: resolving the Supabase user id\<close>

definition lookupEmployeeAuthColumns :: "string list" where
  "lookupEmployeeAuthColumns =
     [''supabase_user_id'', ''auth_user_id'', ''auth_id'', ''user_uuid'', ''supabase_id'',
      ''auth_uuid'']"

text \<open>The property names of the array literal \<^verbatim>\<open>directCandidates\<close>, in its order.\<close>

definition directCandidateFields :: "string list" where
  "directCandidateFields =
     [''supabase_user_id'', ''auth_user_id'', ''auth_id'', ''auth_uuid'', ''uuid'',
      ''user_uuid'', ''user_id'', ''id'']"

definition directCandidates :: "'n builtins \<Rightarrow> 'n jsval \<Rightarrow> 'n jsval list" where
  "directCandidates B user = filter (truthy B) (map (js_get user) directCandidateFields)"

text \<open>The loop \<^verbatim>\<open>for (const c of directCandidates)\<close> with its early return.\<close>

fun first_direct :: "'n jsval list \<Rightarrow> 'n jsval option" where
  "first_direct [] = None"
| "first_direct (c # cs) = (if looks_like_uuid c then Some c else first_direct cs)"

text \<open>The block \<^verbatim>\<open>try { ... supabase.auth.getUser ... } catch (e) {}\<close>: the session's id
  when there is one. Destructuring \<^verbatim>\<open>{ data: authData }\<close> from a nullish result throws
  inside the block.\<close>

definition auth_session_id :: "'n builtins \<Rightarrow> 'n services \<Rightarrow> 'n jsval option" where
  "auth_session_id B S =
     (case auth_getUser S of
        Inl e \<Rightarrow> None
      | Inr r \<Rightarrow>
          (case get_prop r ''data'' of
             Inl e \<Rightarrow> None
           | Inr authData \<Rightarrow>
               (let authUser = opt_chain authData ''user'';
                    aid = opt_chain authUser ''id''
                in if truthy B aid then Some aid else None)))"

text \<open>The loop \<^verbatim>\<open>for (const col of lookupEmployeeAuthColumns)\<close> over the employee row.\<close>

fun scan_columns :: "'n builtins \<Rightarrow> 'n jsval \<Rightarrow> string list \<Rightarrow> 'n jsval option" where
  "scan_columns B row [] = None"
| "scan_columns B row (col # cols) =
     (if truthy B (js_get row col) \<and> looks_like_uuid (js_get row col)
      then Some (js_get row col) else scan_columns B row cols)"

text \<open>The block \<^verbatim>\<open>try { const { data, error } = await supabase.from("employee")... }
  catch (e) {}\<close> for a numeric id \<open>n\<close>: first the row that passes \<^verbatim>\<open>!error && data\<close>
  (destructuring a nullish result throws inside the block), then the scan.\<close>

definition employee_row :: "'n builtins \<Rightarrow> 'n services \<Rightarrow> 'n \<Rightarrow> 'n jsval option" where
  "employee_row B S n =
     (case employee_by_id S n of
        Inl e \<Rightarrow> None
      | Inr r \<Rightarrow>
          (if nullish r then None
           else if \<not> truthy B (js_get r ''error'') \<and> truthy B (js_get r ''data'')
           then Some (js_get r ''data'')
           else None))"

definition employee_lookup :: "'n builtins \<Rightarrow> 'n services \<Rightarrow> 'n \<Rightarrow> 'n jsval option" where
  "employee_lookup B S n =
     (case employee_row B S n of
        None \<Rightarrow> None
      | Some row \<Rightarrow> scan_columns B row lookupEmployeeAuthColumns)"

text \<open>
  \<^verbatim>\<open>resolveSupabaseUserId\<close>. The arguments are the \<^verbatim>\<open>user\<close> prop and the current value of
  \<^verbatim>\<open>resolvedSupabaseUserIdRef\<close>; the result is the returned value, the new value of the
  ref and the external queries made.
\<close>

definition resolveSupabaseUserId ::
  "'n builtins \<Rightarrow> 'n services \<Rightarrow> 'n jsval \<Rightarrow> 'n jsval \<Rightarrow> 'n jsval \<times> 'n jsval \<times> 'n effect list"
where
  "resolveSupabaseUserId B S user cached =
     (if truthy B cached then (cached, cached, [])
      else if \<not> truthy B user then (JNull, cached, [])
      else
        (case first_direct (directCandidates B user) of
           Some c \<Rightarrow> (c, c, [])
         | None \<Rightarrow>
             (case auth_session_id B S of
                Some aid \<Rightarrow> (aid, aid, [AuthGetUser])
              | None \<Rightarrow>
                  (let numericId = to_number B (js_get user ''id'')
                   in if num_is_nan B numericId then (JNull, cached, [AuthGetUser])
                      else
                        (case employee_lookup B S numericId of
                           Some v \<Rightarrow> (v, v, [AuthGetUser, EmployeeSelect numericId])
                         | None \<Rightarrow> (JNull, cached, [AuthGetUser, EmployeeSelect numericId]))))))"

text \<open>Successive calls in one mounted view: the ref is threaded from call to call, the
  \<^verbatim>\<open>user\<close> prop and the services' answers may differ from call to call.\<close>

fun resolve_calls ::
  "'n builtins \<Rightarrow> ('n services \<times> 'n jsval) list \<Rightarrow> 'n jsval \<Rightarrow> ('n jsval \<times> 'n effect list) list"
where
  "resolve_calls B [] cached = []"
| "resolve_calls B ((S, user) # rest) cached =
     (case resolveSupabaseUserId B S user cached of
        (r, cached', tr) \<Rightarrow> (r, tr) # resolve_calls B rest cached')"

section \<open>Array methods with a callback that may throw\<close>

fun js_filter :: "('a \<Rightarrow> js_error + bool) \<Rightarrow> 'a list \<Rightarrow> js_error + 'a list" where
  "js_filter p [] = Inr []"
| "js_filter p (x # xs) =
     (case p x of
        Inl e \<Rightarrow> Inl e
      | Inr b \<Rightarrow>
          (case js_filter p xs of
             Inl e \<Rightarrow> Inl e
           | Inr ys \<Rightarrow> Inr (if b then x # ys else ys)))"

fun js_some :: "('a \<Rightarrow> js_error + bool) \<Rightarrow> 'a list \<Rightarrow> js_error + bool" where
  "js_some p [] = Inr False"
| "js_some p (x # xs) =
     (case p x of
        Inl e \<Rightarrow> Inl e
      | Inr b \<Rightarrow> (if b then Inr True else js_some p xs))"

fun js_map :: "('a \<Rightarrow> js_error + 'b) \<Rightarrow> 'a list \<Rightarrow> js_error + 'b list" where
  "js_map f [] = Inr []"
| "js_map f (x # xs) =
     (case f x of
        Inl e \<Rightarrow> Inl e
      | Inr y \<Rightarrow>
          (case js_map f xs of
             Inl e \<Rightarrow> Inl e
           | Inr ys \<Rightarrow> Inr (y # ys)))"

section \<open>InternTasks: the task list and the status update\<close>

text \<open>The component state: \<^verbatim>\<open>tasks\<close>, \<^verbatim>\<open>loading\<close> and \<^verbatim>\<open>userIdRef.current\<close>. Each function
  returns the state when it has finished, with the effects it had.\<close>

record 'n intern_tasks =
  tasks :: "'n jsval list"
  loading :: bool
  userIdRef :: "'n jsval"

definition resolveUserId ::
  "'n builtins \<Rightarrow> 'n services \<Rightarrow> 'n jsval \<Rightarrow> 'n jsval \<times> 'n jsval \<times> 'n effect list"
where
  "resolveUserId B S cached =
     (if truthy B cached then (cached, cached, [])
      else
        (case auth_getUser S of
           Inl e \<Rightarrow> (JNull, cached, [AuthGetUser, ConsoleWarn ''resolveUserId error''])
         | Inr r \<Rightarrow>
             (case get_prop r ''data'' of
                Inl e \<Rightarrow> (JNull, cached, [AuthGetUser, ConsoleWarn ''resolveUserId error''])
              | Inr authData \<Rightarrow>
                  (let user = opt_chain authData ''user'';
                       uid = opt_chain user ''id''
                   in if truthy B uid then (uid, uid, [AuthGetUser])
                      else (JNull, cached, [AuthGetUser])))))"

text \<open>\<^verbatim>\<open>resp?.data?.data || resp?.data || []\<close>\<close>

definition InternTasks_all :: "'n builtins \<Rightarrow> 'n jsval \<Rightarrow> 'n listval" where
  "InternTasks_all B resp =
     (let d = opt_chain resp ''data''; dd = opt_chain d ''data''
      in if truthy B dd then as_listval dd
         else if truthy B d then as_listval d
         else Items [])"

text \<open>The callback \<^verbatim>\<open>(t) => String(t.user_id) === String(uuid)\<close>\<close>

definition owner_is :: "'n builtins \<Rightarrow> 'n jsval \<Rightarrow> 'n jsval \<Rightarrow> js_error + bool" where
  "owner_is B uuid t =
     (case get_prop t ''user_id'' of
        Inl e \<Rightarrow> Inl e
      | Inr v \<Rightarrow> Inr (to_string B v = to_string B uuid))"

text \<open>\<^verbatim>\<open>fetchTasks\<close> of InternTasks. Whatever is thrown inside the \<^verbatim>\<open>try\<close> (a rejected
  request, \<^verbatim>\<open>all.filter\<close> on a value that is no array, \<^verbatim>\<open>t.user_id\<close> on a nullish row)
  is caught: the list is emptied and the error logged.\<close>

definition InternTasks_fetchTasks ::
  "'n builtins \<Rightarrow> 'n services \<Rightarrow> 'n intern_tasks \<Rightarrow> 'n intern_tasks \<times> 'n effect list"
where
  "InternTasks_fetchTasks B S st =
     (case resolveUserId B S (userIdRef st) of
        (uuid, ref, tr) \<Rightarrow>
          (let failed = (st\<lparr>tasks := [], loading := False, userIdRef := ref\<rparr>,
                         tr @ [ApiGetTasks, ConsoleError ''Failed to fetch tasks:''])
           in if \<not> truthy B uuid
              then (st\<lparr>tasks := [], loading := False, userIdRef := ref\<rparr>, tr)
              else
                (case api_get_tasks S of
                   Inl e \<Rightarrow> failed
                 | Inr resp \<Rightarrow>
                     (case InternTasks_all B resp of
                        NotArray v \<Rightarrow> failed
                      | Items all \<Rightarrow>
                          (case js_filter (owner_is B uuid) all of
                             Inl e \<Rightarrow> failed
                           | Inr mine \<Rightarrow>
                               (st\<lparr>tasks := mine, loading := False, userIdRef := ref\<rparr>,
                                tr @ [ApiGetTasks]))))))"

text \<open>\<^verbatim>\<open>broadcastTasksChanged\<close>: a message on the channel \<^verbatim>\<open>tasks_channel\<close>, or the storage
  key \<^verbatim>\<open>tasks_channel_ping\<close> where the browser has no BroadcastChannel; an exception is
  caught and logged.\<close>

definition broadcastTasksChanged :: "'n services \<Rightarrow> 'n effect list" where
  "broadcastTasksChanged S =
     (if publish_fails S then [ConsoleWarn ''broadcast error'']
      else if broadcast_channel S then [PostMessage]
      else [StoragePing])"

text \<open>\<^verbatim>\<open>updateStatus(taskId, newStatus)\<close>: the three statements of the \<^verbatim>\<open>try\<close> block run in
  sequence; a rejected \<^verbatim>\<open>api.put\<close> leaves it for the \<^verbatim>\<open>catch\<close>.\<close>

definition updateStatus ::
  "'n builtins \<Rightarrow> 'n services \<Rightarrow> 'n jsval \<Rightarrow> 'n jsval \<Rightarrow> 'n intern_tasks
     \<Rightarrow> 'n intern_tasks \<times> 'n effect list"
where
  "updateStatus B S taskId newStatus st =
     (let url = ''/tasks/'' @ to_string B taskId
      in case api_put_task S url newStatus of
           Some e \<Rightarrow>
             (st, [ApiPutTask url newStatus, ConsoleError ''Failed to update task status:''])
         | None \<Rightarrow>
             (case InternTasks_fetchTasks B S st of
                (st', tr) \<Rightarrow> (st', [ApiPutTask url newStatus] @ broadcastTasksChanged S @ tr)))"

section \<open>InternHome: the task list\<close>

text \<open>The component state: \<^verbatim>\<open>tasks\<close> (set from the response as it is, so it may hold a
  value that is no array), \<^verbatim>\<open>loadingTasks\<close> and \<^verbatim>\<open>resolvedSupabaseUserIdRef.current\<close>.\<close>

record 'n intern_home =
  home_tasks :: "'n listval"
  loadingTasks :: bool
  resolvedSupabaseUserIdRef :: "'n jsval"

text \<open>\<^verbatim>\<open>(res && (res.data?.data || res.data)) || []\<close>\<close>

definition InternHome_list :: "'n builtins \<Rightarrow> 'n jsval \<Rightarrow> 'n listval" where
  "InternHome_list B res =
     (if \<not> truthy B res then Items []
      else
        (let d = js_get res ''data''; v = js_or B (opt_chain d ''data'') d
         in if truthy B v then as_listval v else Items []))"

definition InternHome_fetchTasks ::
  "'n builtins \<Rightarrow> 'n services \<Rightarrow> 'n jsval \<Rightarrow> 'n intern_home \<Rightarrow> 'n intern_home \<times> 'n effect list"
where
  "InternHome_fetchTasks B S user st =
     (case resolveSupabaseUserId B S user (resolvedSupabaseUserIdRef st) of
        (supaUserId, ref, tr) \<Rightarrow>
          if \<not> truthy B supaUserId
          then (st\<lparr>home_tasks := Items [], loadingTasks := False,
                    resolvedSupabaseUserIdRef := ref\<rparr>, tr)
          else
            (case api_get_tasks S of
               Inl e \<Rightarrow>
                 (st\<lparr>home_tasks := Items [], loadingTasks := False,
                      resolvedSupabaseUserIdRef := ref\<rparr>,
                  tr @ [ApiGetTasks, ConsoleError ''Unexpected error fetching tasks:'',
                        ToastError ''Unexpected error fetching tasks''])
             | Inr res \<Rightarrow>
                 (st\<lparr>home_tasks := InternHome_list B res, loadingTasks := False,
                      resolvedSupabaseUserIdRef := ref\<rparr>,
                  tr @ [ApiGetTasks])))"

section \<open>InternHome: realtime changes\<close>

text \<open>
  The listener registered on \<^verbatim>\<open>postgres_changes\<close> either hands \<^verbatim>\<open>setTasks\<close> one of three
  updater functions or calls \<^verbatim>\<open>fetchTasks\<close>. \<open>on_postgres_changes\<close> is its choice.
  With a nullish payload \<^verbatim>\<open>payload?.eventType\<close> is \<^verbatim>\<open>undefined\<close>, so \<^verbatim>\<open>payload.event\<close> is
  read and throws; the \<^verbatim>\<open>catch\<close> warns and fetches.
\<close>

text \<open>The three constants of the listener, \<^verbatim>\<open>evt\<close>, \<^verbatim>\<open>newRow\<close> and \<^verbatim>\<open>oldRow\<close>, for a
  payload that is not nullish, and the test
  \<^verbatim>\<open>row && String(row.user_id) === String(supaUserId)\<close>.\<close>

definition event_kind :: "'n builtins \<Rightarrow> 'n jsval \<Rightarrow> 'n jsval" where
  "event_kind B payload = js_or B (js_get payload ''eventType'') (js_get payload ''event'')"

definition new_row :: "'n builtins \<Rightarrow> 'n jsval \<Rightarrow> 'n jsval" where
  "new_row B payload = js_or B (js_get payload ''new'') (js_get payload ''record'')"

definition old_row :: "'n jsval \<Rightarrow> 'n jsval" where
  "old_row payload = js_get payload ''old''"

definition owned_by :: "'n builtins \<Rightarrow> 'n jsval \<Rightarrow> 'n jsval \<Rightarrow> bool" where
  "owned_by B supaUserId row =
     (truthy B row \<and> to_string B (js_get row ''user_id'') = to_string B supaUserId)"

datatype 'n reaction =
    InsertRow "'n jsval"
  | UpdateRow "'n jsval"
  | DeleteRow "'n jsval"
  | Refetch
  | WarnRefetch

definition on_postgres_changes :: "'n builtins \<Rightarrow> 'n jsval \<Rightarrow> 'n jsval \<Rightarrow> 'n reaction" where
  "on_postgres_changes B supaUserId payload =
     (if nullish payload then WarnRefetch
      else
        (let evt = event_kind B payload;
             newRow = new_row B payload;
             oldRow = old_row payload
         in if strict_eq B evt (JStr ''INSERT'') \<and> owned_by B supaUserId newRow
            then InsertRow newRow
            else if strict_eq B evt (JStr ''UPDATE'') \<and> owned_by B supaUserId newRow
            then UpdateRow newRow
            else if strict_eq B evt (JStr ''DELETE'') \<and> owned_by B supaUserId oldRow
            then DeleteRow oldRow
            else Refetch))"

text \<open>The test \<^verbatim>\<open>t.id === row.id\<close> of the three updaters; \<open>row\<close> is truthy there.\<close>

definition same_id :: "'n builtins \<Rightarrow> 'n jsval \<Rightarrow> 'n jsval \<Rightarrow> js_error + bool" where
  "same_id B row t =
     (case get_prop t ''id'' of
        Inl e \<Rightarrow> Inl e
      | Inr i \<Rightarrow> Inr (strict_eq B i (js_get row ''id'')))"

text \<open>\<^verbatim>\<open>(prev) => { if (prev.some((t) => t.id === newRow.id)) return prev;
  return [newRow, ...prev]; }\<close>\<close>

definition insert_updater :: "'n builtins \<Rightarrow> 'n jsval \<Rightarrow> 'n listval \<Rightarrow> js_error + 'n listval" where
  "insert_updater B newRow prev =
     (case prev of
        NotArray v \<Rightarrow> Inl TypeError
      | Items ts \<Rightarrow>
          (case js_some (same_id B newRow) ts of
             Inl e \<Rightarrow> Inl e
           | Inr found \<Rightarrow> Inr (if found then Items ts else Items (newRow # ts))))"

text \<open>\<^verbatim>\<open>(prev) => prev.map((t) => (t.id === newRow.id ? newRow : t))\<close>\<close>

definition update_updater :: "'n builtins \<Rightarrow> 'n jsval \<Rightarrow> 'n listval \<Rightarrow> js_error + 'n listval" where
  "update_updater B newRow prev =
     (case prev of
        NotArray v \<Rightarrow> Inl TypeError
      | Items ts \<Rightarrow>
          (case js_map (\<lambda>t. case same_id B newRow t of
                              Inl e \<Rightarrow> Inl e
                            | Inr b \<Rightarrow> Inr (if b then newRow else t)) ts of
             Inl e \<Rightarrow> Inl e
           | Inr ts' \<Rightarrow> Inr (Items ts')))"

text \<open>\<^verbatim>\<open>(prev) => prev.filter((t) => t.id !== oldRow.id)\<close>\<close>

definition delete_updater :: "'n builtins \<Rightarrow> 'n jsval \<Rightarrow> 'n listval \<Rightarrow> js_error + 'n listval" where
  "delete_updater B oldRow prev =
     (case prev of
        NotArray v \<Rightarrow> Inl TypeError
      | Items ts \<Rightarrow>
          (case js_filter (\<lambda>t. case same_id B oldRow t of
                                 Inl e \<Rightarrow> Inl e
                               | Inr b \<Rightarrow> Inr (\<not> b)) ts of
             Inl e \<Rightarrow> Inl e
           | Inr ts' \<Rightarrow> Inr (Items ts')))"

text \<open>
  One realtime event, from the listener's call to the state React holds afterwards.
  \<open>Inl\<close>: the updater threw when React ran it.
\<close>

definition realtime_event ::
  "'n builtins \<Rightarrow> 'n services \<Rightarrow> 'n jsval \<Rightarrow> 'n jsval \<Rightarrow> 'n jsval \<Rightarrow> 'n intern_home
     \<Rightarrow> js_error + 'n intern_home \<times> 'n effect list"
where
  "realtime_event B S user supaUserId payload st =
     (case on_postgres_changes B supaUserId payload of
        InsertRow newRow \<Rightarrow>
          (case insert_updater B newRow (home_tasks st) of
             Inl e \<Rightarrow> Inl e
           | Inr ts \<Rightarrow> Inr (st\<lparr>home_tasks := ts\<rparr>, []))
      | UpdateRow newRow \<Rightarrow>
          (case update_updater B newRow (home_tasks st) of
             Inl e \<Rightarrow> Inl e
           | Inr ts \<Rightarrow> Inr (st\<lparr>home_tasks := ts\<rparr>, []))
      | DeleteRow oldRow \<Rightarrow>
          (case delete_updater B oldRow (home_tasks st) of
             Inl e \<Rightarrow> Inl e
           | Inr ts \<Rightarrow> Inr (st\<lparr>home_tasks := ts\<rparr>, []))
      | Refetch \<Rightarrow> Inr (InternHome_fetchTasks B S user st)
      | WarnRefetch \<Rightarrow>
          (case InternHome_fetchTasks B S user st of
             (st', tr) \<Rightarrow> Inr (st', ConsoleWarn ''Realtime payload handling error:'' # tr)))"

text \<open>A list holding a row with the id of a given row, in the sense of the updaters'
  test.\<close>

definition has_id_of :: "'n builtins \<Rightarrow> 'n jsval \<Rightarrow> 'n jsval list \<Rightarrow> bool" where
  "has_id_of B row ts = list_ex (\<lambda>t. strict_eq B (js_get t ''id'') (js_get row ''id'')) ts"

text \<open>No two rows of a list have the same id.\<close>

fun distinct_ids :: "'n builtins \<Rightarrow> 'n jsval list \<Rightarrow> bool" where
  "distinct_ids B [] = True"
| "distinct_ids B (t # ts) = (\<not> has_id_of B t ts \<and> distinct_ids B ts)"

section \<open>InternTasks: realtime changes\<close>

text \<open>
  The listener InternTasks registers on \<^verbatim>\<open>postgres_changes\<close>, for the identifier \<open>uuid\<close>
  resolved when the view was mounted. It does not edit the list: when the new or the old
  row of the payload is owned by \<open>uuid\<close> it calls \<^verbatim>\<open>fetchTasks\<close>, otherwise it does nothing.
  \<^verbatim>\<open>payload?.new\<close> and \<^verbatim>\<open>payload?.old\<close> read a nullish payload as \<^verbatim>\<open>undefined\<close>, so nothing in
  the \<^verbatim>\<open>try\<close> block throws. The result is the state once the fetch has finished.
\<close>

definition InternTasks_realtime_event ::
  "'n builtins \<Rightarrow> 'n services \<Rightarrow> 'n jsval \<Rightarrow> 'n jsval \<Rightarrow> 'n intern_tasks
     \<Rightarrow> 'n intern_tasks \<times> 'n effect list"
where
  "InternTasks_realtime_event B S uuid payload st =
     (let newRow = opt_chain payload ''new'';
          oldRow = opt_chain payload ''old''
      in if owned_by B uuid newRow \<or> owned_by B uuid oldRow
         then InternTasks_fetchTasks B S st
         else (st, []))"

section \<open>InternHome: the transcript of a meeting\<close>

text \<open>\<^verbatim>\<open>parseItems\<close>, the same in \<^verbatim>\<open>copyTranscript\<close> and \<^verbatim>\<open>downloadTranscript\<close>.\<close>

definition parseItems :: "'n builtins \<Rightarrow> 'n jsval \<Rightarrow> 'n listval" where
  "parseItems B arr =
     (if \<not> truthy B arr then Items []
      else
        (case arr of
           JStr s \<Rightarrow> (case json_parse B s of Inl e \<Rightarrow> Items [arr] | Inr v \<Rightarrow> as_listval v)
         | JArr r xs \<Rightarrow> Items xs
         | _ \<Rightarrow> Items [arr]))"

text \<open>The text an item is exported as, \<^verbatim>\<open>${p.task || p}\<close>, and its line
  \<^verbatim>\<open>` - ${p.task || p}`\<close>.\<close>

definition item_text :: "'n builtins \<Rightarrow> 'n jsval \<Rightarrow> js_error + string" where
  "item_text B p =
     (case get_prop p ''task'' of
        Inl e \<Rightarrow> Inl e
      | Inr t \<Rightarrow> Inr (to_string B (js_or B t p)))"

text \<open>\<^verbatim>\<open>parseItems(field)\<close> with each item mapped to its text.\<close>

definition exported_texts :: "'n builtins \<Rightarrow> 'n jsval \<Rightarrow> js_error + string list" where
  "exported_texts B field =
     (case parseItems B field of
        NotArray v \<Rightarrow> Inl TypeError
      | Items ps \<Rightarrow> js_map (item_text B) ps)"

definition item_line :: "'n builtins \<Rightarrow> 'n jsval \<Rightarrow> js_error + string" where
  "item_line B p = (case item_text B p of Inl e \<Rightarrow> Inl e | Inr t \<Rightarrow> Inr ('' - '' @ t))"

text \<open>\<^verbatim>\<open>parseItems(field).map((p) => ` - ${p.task || p}`)\<close>: calling \<^verbatim>\<open>map\<close> on what
  \<^verbatim>\<open>JSON.parse\<close> returned throws when that is no array.\<close>

definition item_lines :: "'n builtins \<Rightarrow> 'n jsval \<Rightarrow> js_error + string list" where
  "item_lines B field =
     (case parseItems B field of
        NotArray v \<Rightarrow> Inl TypeError
      | Items ps \<Rightarrow> js_map (item_line B) ps)"

definition newline :: string where
  "newline = [CHR 0x0A]"

text \<open>The string \<^verbatim>\<open>content\<close> that \<^verbatim>\<open>copyTranscript\<close> writes to the clipboard and
  \<^verbatim>\<open>downloadTranscript\<close> to the file, for a truthy \<^verbatim>\<open>meeting\<close>.\<close>

definition transcript_content :: "'n builtins \<Rightarrow> 'n jsval \<Rightarrow> js_error + string" where
  "transcript_content B meeting =
     (case item_lines B (js_get meeting ''tasks'') of
        Inl e \<Rightarrow> Inl e
      | Inr tasksLines \<Rightarrow>
          (case item_lines B (js_get meeting ''pending_tasks'') of
             Inl e \<Rightarrow> Inl e
           | Inr pendingLines \<Rightarrow>
               Inr (join_with newline
                 [''Meeting: '' @ to_string B (js_get meeting ''meeting_name''),
                  [],
                  ''Summary:'' @ newline
                    @ to_string B (js_or B (js_get meeting ''summary'') (JStr [])),
                  [],
                  ''Tasks:'' @ newline @ join_with newline tasksLines,
                  [],
                  ''Pending:'' @ newline @ join_with newline pendingLines,
                  [],
                  ''Created: ''
                    @ to_string B (js_or B (js_get meeting ''created_at'') (JStr []))])))"

text \<open>
  Follows the spec's words, not the code: the task text an encoded item stands for. A
  pending item is a plain string, or an object whose \<^verbatim>\<open>task\<close> is the text; anything else
  encodes no task text.
\<close>

fun encoded_task_text :: "'n jsval \<Rightarrow> string option" where
  "encoded_task_text (JStr s) = Some s"
| "encoded_task_text (JObj r fs) =
     (case js_get (JObj r fs) ''task'' of JStr t \<Rightarrow> Some t | _ \<Rightarrow> None)"
| "encoded_task_text v = None"

text \<open>The items the code prints as their task text: a string, or an object whose
  \<^verbatim>\<open>task\<close> is a string that is not empty.\<close>

fun plain_item :: "'n jsval \<Rightarrow> bool" where
  "plain_item (JStr s) = True"
| "plain_item (JObj r fs) = (case js_get (JObj r fs) ''task'' of JStr t \<Rightarrow> t \<noteq> [] | _ \<Rightarrow> False)"
| "plain_item v = False"

section \<open>A host for worked examples\<close>

text \<open>
  The examples run on whole numbers and NaN. \<^verbatim>\<open>String(n)\<close> of a whole number is its
  decimal numeral; \<^verbatim>\<open>Number(s)\<close> reads a decimal numeral with an optional minus sign, the
  empty string as 0 and, in this host, nothing else. \<^verbatim>\<open>JSON.parse\<close> is given at the
  strings the examples use, with fresh addresses for the objects it builds.
\<close>

datatype whole = NaN | Whole int

definition decimal_digits :: string where
  "decimal_digits = ''0123456789''"

fun digits_of_nat :: "nat \<Rightarrow> string" where
  "digits_of_nat n =
     (if n < 10 then [decimal_digits ! n]
      else digits_of_nat (n div 10) @ [decimal_digits ! (n mod 10)])"

fun whole_to_string :: "whole \<Rightarrow> string" where
  "whole_to_string NaN = ''NaN''"
| "whole_to_string (Whole i) =
     (if i < 0 then CHR ''-'' # digits_of_nat (nat (- i)) else digits_of_nat (nat i))"

fun nat_of_digits :: "nat \<Rightarrow> string \<Rightarrow> nat option" where
  "nat_of_digits acc [] = Some acc"
| "nat_of_digits acc (c # cs) =
     (if c \<in> set decimal_digits
      then nat_of_digits (10 * acc + (of_char c - 48)) cs
      else None)"

definition whole_of_string :: "string \<Rightarrow> whole" where
  "whole_of_string s =
     (case s of
        [] \<Rightarrow> Whole 0
      | c # cs \<Rightarrow>
          (if c = CHR ''-'' \<and> cs \<noteq> []
           then (case nat_of_digits 0 cs of Some n \<Rightarrow> Whole (- int n) | None \<Rightarrow> NaN)
           else (case nat_of_digits 0 s of Some n \<Rightarrow> Whole (int n) | None \<Rightarrow> NaN)))"

definition pending_json :: string where
  \<open>pending_json = ''[{"task":"Send report"},"Book room"]''\<close>

definition empty_task_json :: string where
  \<open>empty_task_json = ''[{"task":""}]''\<close>

definition example_json_parse :: "string \<Rightarrow> js_error + whole jsval" where
  "example_json_parse s =
     (if s = pending_json
      then Inr (JArr 100 [JObj 101 [(''task'', JStr ''Send report'')], JStr ''Book room''])
      else if s = empty_task_json
      then Inr (JArr 102 [JObj 103 [(''task'', JStr [])]])
      else Inl SyntaxError)"

definition whole_host :: "whole builtins" where
  "whole_host =
     \<lparr> num_truthy = (\<lambda>n. n \<noteq> NaN \<and> n \<noteq> Whole 0),
       num_to_string = whole_to_string,
       num_eq = (\<lambda>a b. a \<noteq> NaN \<and> a = b),
       num_is_nan = (\<lambda>n. n = NaN),
       num_nan = NaN,
       num_zero = Whole 0,
       num_of_bool = (\<lambda>b. if b then Whole 1 else Whole 0),
       string_to_num = whole_of_string,
       json_parse = example_json_parse \<rparr>"

text \<open>Services that are all down, from which the examples switch single calls on.\<close>

definition offline :: "whole services" where
  "offline =
     \<lparr> auth_getUser = Inl (Rejected ''Network Error''),
       employee_by_id = (\<lambda>n. Inl (Rejected ''Network Error'')),
       api_get_tasks = Inl (Rejected ''Network Error''),
       api_put_task = (\<lambda>url body. Some (Rejected ''Network Error'')),
       broadcast_channel = True,
       publish_fails = False \<rparr>"

text \<open>The inputs of the worked examples.\<close>

definition user42 :: "whole jsval" where
  "user42 = JObj 1 [(''id'', JNum (Whole 42)), (''supabase_user_id'', JStr ''abc-123'')]"

definition user_numeric :: "whole jsval" where
  "user_numeric = JObj 2 [(''id'', JNum (Whole 42)), (''name'', JStr ''Asha'')]"

definition employee_online :: "whole services" where
  "employee_online =
     offline\<lparr> employee_by_id :=
       (\<lambda>n. if n = Whole 42
             then Inr (JObj 3 [(''data'', JObj 4 [(''supabase_user_id'', JNull),
                                                 (''auth_user_id'', JStr ''xyz-789''),
                                                 (''auth_uuid'', JStr ''late-1'')]),
                               (''error'', JNull)])
             else Inr (JObj 5 [(''data'', JNull), (''error'', JNull)])) \<rparr>"

definition row1 :: "whole jsval" where
  "row1 = JObj 11 [(''id'', JNum (Whole 1)), (''user_id'', JStr ''abc-123'')]"

definition row2 :: "whole jsval" where
  "row2 = JObj 12 [(''id'', JNum (Whole 2)), (''user_id'', JNum (Whole 99))]"

definition tasks_online :: "whole services" where
  "tasks_online =
     offline\<lparr> api_get_tasks := Inr (JObj 10 [(''data'', JArr 13 [row1, row2])]),
              api_put_task := (\<lambda>url body. None) \<rparr>"

definition home0 :: "whole intern_home" where
  "home0 = \<lparr> home_tasks = Items [], loadingTasks = True, resolvedSupabaseUserIdRef = JNull \<rparr>"

definition page0 :: "whole intern_tasks" where
  "page0 = \<lparr> tasks = [], loading = True, userIdRef = JNull \<rparr>"

definition page99 :: "whole intern_tasks" where
  "page99 = \<lparr> tasks = [row2], loading = False, userIdRef = JStr ''99'' \<rparr>"

definition row3 :: "whole jsval" where
  "row3 = JObj 14 [(''id'', JNum (Whole 3)), (''user_id'', JStr ''abc-123'')]"

definition row1_again :: "whole jsval" where
  "row1_again =
     JObj 15 [(''id'', JNum (Whole 1)), (''user_id'', JStr ''abc-123''),
              (''status'', JStr ''Completed'')]"

definition home1 :: "whole intern_home" where
  "home1 = \<lparr> home_tasks = Items [row1], loadingTasks = False,
             resolvedSupabaseUserIdRef = JStr ''abc-123'' \<rparr>"

text \<open>A realtime payload \<^verbatim>\<open>{eventType, new, old}\<close>.\<close>

definition change :: "string \<Rightarrow> whole jsval \<Rightarrow> whole jsval \<Rightarrow> whole jsval" where
  "change kind new old = JObj 20 [(''eventType'', JStr kind), (''new'', new), (''old'', old)]"

definition standup :: "whole jsval" where
  "standup =
     JObj 30 [(''meeting_name'', JStr ''Standup''), (''summary'', JStr ''Plans''),
              (''pending_tasks'', JStr pending_json)]"

definition row5 :: "whole jsval" where
  "row5 = JObj 16 [(''id'', JNum (Whole 5)), (''user_id'', JNum (Whole 99))]"

text \<open>A signed-in Supabase session, the backend answering as in \<open>tasks_online\<close>.\<close>

definition session_online :: "whole services" where
  "session_online =
     tasks_online\<lparr> auth_getUser :=
       Inr (JObj 40 [(''data'', JObj 41 [(''user'', JObj 42 [(''id'', JStr ''sess-1'')])])]) \<rparr>"

section \<open>The resolver\<close>

declare digits_of_nat.simps [simp del]

lemma looks_like_uuid_truthy: "looks_like_uuid c \<Longrightarrow> truthy B c"
  by (cases c) auto

lemma first_direct_find: "first_direct cs = find looks_like_uuid cs"
  by (induction cs) auto

lemma find_uuid_filter_truthy:
  "find looks_like_uuid (filter (truthy B) cs) = find looks_like_uuid cs"
  by (induction cs) (auto simp: looks_like_uuid_truthy)

lemma first_direct_candidates:
  "first_direct (directCandidates B user) =
     find looks_like_uuid (map (js_get user) directCandidateFields)"
  by (simp add: directCandidates_def first_direct_find find_uuid_filter_truthy)

lemma scan_columns_find:
  "scan_columns B row cols =
     (case find (\<lambda>col. looks_like_uuid (js_get row col)) cols of
        Some col \<Rightarrow> Some (js_get row col) | None \<Rightarrow> None)"
  by (induction cols) (auto simp: looks_like_uuid_truthy)

lemma find_uuid_user_truthy:
  "find looks_like_uuid (map (js_get user) ks) = Some c \<Longrightarrow> truthy B user"
  by (cases user) (auto simp: find_Some_iff)

text \<open>
  Claim C3. When one of the direct candidate fields of the user record, read in the order
  \<^verbatim>\<open>supabase_user_id, auth_user_id, auth_id, auth_uuid, uuid, user_uuid, user_id, id\<close>, is a
  string containing a hyphen, a resolution that finds nothing cached returns the first such
  value and stores it, and makes no external query: neither the auth-session query nor the
  employee lookup. (With a cached identifier the call returns that, again with no query.)
  Nothing but the hyphen is asked of the value.
\<close>

theorem resolve_direct_candidate:
  assumes "find looks_like_uuid (map (js_get user) directCandidateFields) = Some c"
  shows "resolveSupabaseUserId B S user cached =
           (if truthy B cached then (cached, cached, []) else (c, c, []))
         \<and> directCandidateFields =
             [''supabase_user_id'', ''auth_user_id'', ''auth_id'', ''auth_uuid'', ''uuid'',
              ''user_uuid'', ''user_id'', ''id'']"
proof -
  have "truthy B user"
    using assms by (rule find_uuid_user_truthy)
  moreover have "first_direct (directCandidates B user) = Some c"
    using assms by (simp add: first_direct_candidates)
  ultimately show ?thesis
    by (simp add: resolveSupabaseUserId_def directCandidateFields_def)
qed

text \<open>The scenario of the spec: \<^verbatim>\<open>{id: 42, supabase_user_id: "abc-123"}\<close> resolves to
  \<^verbatim>\<open>"abc-123"\<close> with no network call.\<close>

theorem resolve_direct_candidate_witness:
  "resolveSupabaseUserId whole_host offline user42 JNull = (JStr ''abc-123'', JStr ''abc-123'', [])"
  using resolve_direct_candidate [of user42 "JStr ''abc-123''" whole_host offline JNull]
  by (simp add: user42_def directCandidateFields_def)

text \<open>
  Claim C4. For a user record with no direct candidate that is a string containing a
  hyphen, when nothing is cached, the auth session gives no identifier and
  \<^verbatim>\<open>Number(user.id)\<close> is not NaN, the resolution queries the auth session and then the
  employee table by that number. When that query resolves to a reply with no \<^verbatim>\<open>error\<close> and
  a row in \<^verbatim>\<open>data\<close>, it gives back the value of the first column of that row, in the order
  \<^verbatim>\<open>supabase_user_id, auth_user_id, auth_id, user_uuid, supabase_id, auth_uuid\<close>, that is a
  string containing a hyphen, and caches it; when no column qualifies, or the query is
  rejected, reports an error or has no row, it returns \<^verbatim>\<open>null\<close>.
\<close>

theorem resolve_employee_fallback:
  assumes "\<not> truthy B cached"
    and "truthy B user"
    and "find looks_like_uuid (map (js_get user) directCandidateFields) = None"
    and "auth_session_id B S = None"
    and "\<not> num_is_nan B (to_number B (js_get user ''id''))"
  shows "resolveSupabaseUserId B S user cached =
           (let n = to_number B (js_get user ''id'');
                queries = [AuthGetUser, EmployeeSelect n]
            in case employee_by_id S n of
                 Inl e \<Rightarrow> (JNull, cached, queries)
               | Inr reply \<Rightarrow>
                   if nullish reply \<or> truthy B (js_get reply ''error'')
                      \<or> \<not> truthy B (js_get reply ''data'')
                   then (JNull, cached, queries)
                   else
                     (case find (\<lambda>col. looks_like_uuid (js_get (js_get reply ''data'') col))
                             lookupEmployeeAuthColumns of
                        Some col \<Rightarrow>
                          (js_get (js_get reply ''data'') col,
                           js_get (js_get reply ''data'') col, queries)
                      | None \<Rightarrow> (JNull, cached, queries)))
         \<and> lookupEmployeeAuthColumns =
             [''supabase_user_id'', ''auth_user_id'', ''auth_id'', ''user_uuid'',
              ''supabase_id'', ''auth_uuid'']"
proof -
  have "first_direct (directCandidates B user) = None"
    using assms(3) by (simp add: first_direct_candidates)
  then have "resolveSupabaseUserId B S user cached =
           (let n = to_number B (js_get user ''id'');
                queries = [AuthGetUser, EmployeeSelect n]
            in case employee_by_id S n of
                 Inl e \<Rightarrow> (JNull, cached, queries)
               | Inr reply \<Rightarrow>
                   if nullish reply \<or> truthy B (js_get reply ''error'')
                      \<or> \<not> truthy B (js_get reply ''data'')
                   then (JNull, cached, queries)
                   else
                     (case find (\<lambda>col. looks_like_uuid (js_get (js_get reply ''data'') col))
                             lookupEmployeeAuthColumns of
                        Some col \<Rightarrow>
                          (js_get (js_get reply ''data'') col,
                           js_get (js_get reply ''data'') col, queries)
                      | None \<Rightarrow> (JNull, cached, queries)))"
    using assms(1,2,4,5)
    by (simp add: resolveSupabaseUserId_def employee_lookup_def employee_row_def
          scan_columns_find Let_def split: option.splits sum.splits)
  then show ?thesis
    by (simp add: lookupEmployeeAuthColumns_def)
qed

text \<open>A user \<^verbatim>\<open>{id: 42, name: "Asha"}\<close>, no auth session, and an employee table that answers
  the query for 42 with a row whose \<^verbatim>\<open>auth_user_id\<close> and \<^verbatim>\<open>auth_uuid\<close> both qualify: the
  earlier column wins.\<close>

theorem resolve_employee_fallback_witness:
  "resolveSupabaseUserId whole_host employee_online user_numeric JNull =
     (JStr ''xyz-789'', JStr ''xyz-789'', [AuthGetUser, EmployeeSelect (Whole 42)])"
  using resolve_employee_fallback [of whole_host JNull user_numeric employee_online]
  by (simp add: user_numeric_def employee_online_def offline_def whole_host_def
        directCandidateFields_def auth_session_id_def nullish_def
        lookupEmployeeAuthColumns_def)

lemma resolve_cached:
  "truthy B cached \<Longrightarrow> resolveSupabaseUserId B S user cached = (cached, cached, [])"
  by (simp add: resolveSupabaseUserId_def)

lemma auth_session_id_truthy: "auth_session_id B S = Some a \<Longrightarrow> truthy B a"
  by (auto simp: auth_session_id_def Let_def split: sum.splits if_splits)

lemma scan_columns_truthy: "scan_columns B row cols = Some v \<Longrightarrow> truthy B v"
  by (induction cols) (auto split: if_splits)

lemma employee_lookup_truthy: "employee_lookup B S n = Some v \<Longrightarrow> truthy B v"
  by (auto simp: employee_lookup_def split: option.splits dest: scan_columns_truthy)

lemma first_direct_truthy: "first_direct cs = Some c \<Longrightarrow> truthy B c"
  by (induction cs) (auto split: if_splits simp: looks_like_uuid_truthy)

text \<open>What a resolution returns is \<^verbatim>\<open>null\<close> or a truthy value that it has cached.\<close>

lemma resolve_result:
  assumes "resolveSupabaseUserId B S user cached = (r, cached', tr)"
  shows "r = JNull \<or> (truthy B r \<and> cached' = r)"
  using assms
  by (auto simp: resolveSupabaseUserId_def Let_def
        split: if_splits option.splits
        dest: first_direct_truthy auth_session_id_truthy employee_lookup_truthy)

lemma resolve_calls_cached:
  "truthy B cached \<Longrightarrow> resolve_calls B calls cached = map (\<lambda>call. (cached, [])) calls"
  by (induction calls) (auto simp: resolve_cached)

text \<open>
  Claim C9. Once a call of the resolver has returned an identifier that is not \<^verbatim>\<open>null\<close>,
  every later call in the same mounted view (the ref carried over; whatever the user record
  and whatever the services would answer) returns the same identifier and makes no external
  query.
\<close>

theorem resolve_memoized:
  assumes "resolveSupabaseUserId B S user cached = (r, cached', tr)"
    and "r \<noteq> JNull"
  shows "resolve_calls B calls cached' = map (\<lambda>call. (r, [])) calls"
proof -
  from resolve_result [OF assms(1)] assms(2) have "truthy B r" and "cached' = r"
    by auto
  then show ?thesis
    by (simp add: resolve_calls_cached)
qed

text \<open>After \<^verbatim>\<open>"abc-123"\<close> has been resolved, three more calls, one of them for another
  user with the employee table reachable, one with no user at all.\<close>

theorem resolve_memoized_witness:
  "resolveSupabaseUserId whole_host offline user42 JNull = (JStr ''abc-123'', JStr ''abc-123'', [])
   \<and> resolve_calls whole_host
         [(offline, user42), (employee_online, user_numeric), (offline, JNull)] (JStr ''abc-123'')
       = [(JStr ''abc-123'', []), (JStr ''abc-123'', []), (JStr ''abc-123'', [])]"
  using resolve_memoized [of whole_host offline user42 JNull "JStr ''abc-123''" "JStr ''abc-123''" "[]"
      "[(offline, user42), (employee_online, user_numeric), (offline, JNull)]"]
  by (simp add: user42_def resolveSupabaseUserId_def directCandidates_def directCandidateFields_def)

section \<open>The task list\<close>

lemma js_filter_owner:
  "list_all (\<lambda>t. \<not> nullish t) ts \<Longrightarrow>
     js_filter (owner_is B uuid) ts =
       Inr (filter (\<lambda>t. to_string B (js_get t ''user_id'') = to_string B uuid) ts)"
  by (induction ts) (auto simp: owner_is_def get_prop_def)

text \<open>
  InternTasks keeps exactly the rows whose \<^verbatim>\<open>user_id\<close>, as a string, is the resolved
  identifier as a string, in the order of the response (rows that are \<^verbatim>\<open>null\<close> would make
  the callback throw, which empties the list).
\<close>

lemma InternTasks_fetchTasks_filters:
  assumes "resolveUserId B S (userIdRef st) = (uuid, ref, tr)"
    and "truthy B uuid"
    and "api_get_tasks S = Inr resp"
    and "InternTasks_all B resp = Items all"
    and "list_all (\<lambda>t. \<not> nullish t) all"
  shows "InternTasks_fetchTasks B S st =
           (st\<lparr>tasks := filter (\<lambda>t. to_string B (js_get t ''user_id'') = to_string B uuid) all,
               loading := False, userIdRef := ref\<rparr>,
            tr @ [ApiGetTasks])"
  using assms by (simp add: InternTasks_fetchTasks_def js_filter_owner)

text \<open>The scenario of the spec on InternTasks: of the rows \<^verbatim>\<open>{id: 1, user_id: "abc-123"}\<close>
  and \<^verbatim>\<open>{id: 2, user_id: 99}\<close>, the identifier \<^verbatim>\<open>"99"\<close> keeps the second.\<close>

lemma InternTasks_fetchTasks_scenario:
  "InternTasks_fetchTasks whole_host tasks_online page99 =
     (\<lparr> tasks = [row2], loading = False, userIdRef = JStr ''99'' \<rparr>, [ApiGetTasks])"
  by (simp add: InternTasks_fetchTasks_def resolveUserId_def page99_def tasks_online_def offline_def
        InternTasks_all_def opt_chain_def nullish_def row1_def row2_def owner_is_def get_prop_def
        whole_host_def digits_of_nat.simps decimal_digits_def)

text \<open>
  Claim C1. The list operation is to expose exactly the rows whose \<^verbatim>\<open>user_id\<close>, as a string,
  equals the resolved identifier as a string. InternTasks does (the two lemmas above).
  \<^verbatim>\<open>fetchTasks\<close> of InternHome stores the response as it is: for the user
  \<^verbatim>\<open>{id: 42, supabase_user_id: "abc-123"}\<close> and the same two rows it exposes both, although
  the owner of the second, \<^verbatim>\<open>99\<close>, is not \<^verbatim>\<open>"abc-123"\<close>.
\<close>

theorem InternHome_fetchTasks_unfiltered:
  "InternHome_fetchTasks whole_host tasks_online user42 home0 =
     (\<lparr> home_tasks = Items [row1, row2], loadingTasks = False,
         resolvedSupabaseUserIdRef = JStr ''abc-123'' \<rparr>, [ApiGetTasks])
   \<and> to_string whole_host (js_get row2 ''user_id'') \<noteq> to_string whole_host (JStr ''abc-123'')"
  by (simp add: InternHome_fetchTasks_def resolveSupabaseUserId_def directCandidates_def
        directCandidateFields_def user42_def home0_def tasks_online_def offline_def
        InternHome_list_def opt_chain_def nullish_def js_or_def row2_def
        whole_host_def digits_of_nat.simps decimal_digits_def)

lemma resolveUserId_silent:
  "resolveUserId B S cached = (r, ref, tr) \<Longrightarrow> list_all silent tr"
  by (auto simp: resolveUserId_def Let_def split: if_splits sum.splits)

lemma resolveSupabaseUserId_silent:
  "resolveSupabaseUserId B S user cached = (r, ref, tr) \<Longrightarrow> list_all silent tr"
  by (auto simp: resolveSupabaseUserId_def Let_def split: if_splits option.splits)

text \<open>
  Claim C8. When the resolution returns \<^verbatim>\<open>null\<close>, \<^verbatim>\<open>fetchTasks\<close> sets the task list to the
  empty list, clears the loading flag and returns; its only effects are those of the
  resolution, so the task endpoint is not called and no error is reported. This holds for
  \<^verbatim>\<open>fetchTasks\<close> of InternTasks with its resolver and, independently, for \<^verbatim>\<open>fetchTasks\<close> of
  InternHome with its own, whatever made that resolution return \<^verbatim>\<open>null\<close>. The model has no
  exceptional outcome for \<^verbatim>\<open>fetchTasks\<close>, the whole body being inside \<^verbatim>\<open>try\<close>/\<^verbatim>\<open>catch\<close>.
\<close>

theorem fetchTasks_unresolved:
  "(resolveUserId B S (userIdRef st) = (JNull, ref, tr) \<longrightarrow>
      InternTasks_fetchTasks B S st =
        (st\<lparr>tasks := [], loading := False, userIdRef := ref\<rparr>, tr)
      \<and> list_all silent tr)
   \<and> (resolveSupabaseUserId B S' user (resolvedSupabaseUserIdRef hst) = (JNull, href, htr) \<longrightarrow>
      InternHome_fetchTasks B S' user hst =
        (hst\<lparr>home_tasks := Items [], loadingTasks := False,
             resolvedSupabaseUserIdRef := href\<rparr>, htr)
      \<and> list_all silent htr)"
proof (intro conjI impI)
  assume r: "resolveUserId B S (userIdRef st) = (JNull, ref, tr)"
  then show "InternTasks_fetchTasks B S st =
      (st\<lparr>tasks := [], loading := False, userIdRef := ref\<rparr>, tr)"
    by (simp add: InternTasks_fetchTasks_def)
  from r show "list_all silent tr"
    by (rule resolveUserId_silent)
next
  assume r: "resolveSupabaseUserId B S' user (resolvedSupabaseUserIdRef hst) = (JNull, href, htr)"
  then show "InternHome_fetchTasks B S' user hst =
      (hst\<lparr>home_tasks := Items [], loadingTasks := False,
           resolvedSupabaseUserIdRef := href\<rparr>, htr)"
    by (simp add: InternHome_fetchTasks_def)
  from r show "list_all silent htr"
    by (rule resolveSupabaseUserId_silent)
qed

text \<open>InternTasks with no auth session. InternHome for a user \<^verbatim>\<open>{id: 42, name: "Asha"}\<close>
  with no auth session and the employee table out of reach; and InternHome with no
  \<^verbatim>\<open>user\<close> prop while a session is signed in. Each list ends empty though the task endpoint
  would answer.\<close>

theorem fetchTasks_unresolved_witness:
  "InternTasks_fetchTasks whole_host tasks_online page0 =
     (\<lparr> tasks = [], loading = False, userIdRef = JNull \<rparr>,
      [AuthGetUser, ConsoleWarn ''resolveUserId error''])
   \<and> InternHome_fetchTasks whole_host tasks_online user_numeric home0 =
     (\<lparr> home_tasks = Items [], loadingTasks = False, resolvedSupabaseUserIdRef = JNull \<rparr>,
      [AuthGetUser, EmployeeSelect (Whole 42)])
   \<and> InternHome_fetchTasks whole_host session_online JNull home0 =
     (\<lparr> home_tasks = Items [], loadingTasks = False, resolvedSupabaseUserIdRef = JNull \<rparr>, [])"
  using fetchTasks_unresolved [of whole_host tasks_online page0 JNull
      "[AuthGetUser, ConsoleWarn ''resolveUserId error'']" tasks_online user_numeric home0 JNull
      "[AuthGetUser, EmployeeSelect (Whole 42)]"]
    fetchTasks_unresolved [of whole_host tasks_online page0 JNull
      "[AuthGetUser, ConsoleWarn ''resolveUserId error'']" session_online JNull home0 JNull "[]"]
  by (simp add: resolveUserId_def resolveSupabaseUserId_def page0_def home0_def tasks_online_def
        offline_def user_numeric_def directCandidates_def directCandidateFields_def
        auth_session_id_def employee_lookup_def employee_row_def whole_host_def)

section \<open>The status update\<close>

text \<open>
  Claim C2, as stated, fails: when \<^verbatim>\<open>api.put\<close> is rejected, \<^verbatim>\<open>updateStatus\<close> logs the error
  and does nothing else. Here the update of task 7 with every service down: no broadcast,
  no request for the list, the state as it was.
\<close>

theorem updateStatus_failed_put:
  "updateStatus whole_host offline (JNum (Whole 7)) (JStr ''Completed'') page99 =
     (page99, [ApiPutTask ''/tasks/7'' (JStr ''Completed''),
               ConsoleError ''Failed to update task status:''])"
  by (simp add: updateStatus_def offline_def whole_host_def digits_of_nat.simps decimal_digits_def)

text \<open>
  Claim C2, amended. \<^verbatim>\<open>updateStatus(taskId, newStatus)\<close> sends the partial update. When that
  succeeds it then broadcasts (a message on the channel, or the storage key where there is
  no BroadcastChannel) and after that fetches the list again, the state being the one the
  fetch leaves. When the update is rejected the error is logged, nothing is broadcast,
  nothing is fetched and the state is untouched. Either way \<^verbatim>\<open>updateStatus\<close> returns: the
  model has no exceptional outcome for it.
\<close>

theorem updateStatus_outcomes:
  "updateStatus B S taskId newStatus st =
     (let put = ApiPutTask (''/tasks/'' @ to_string B taskId) newStatus
      in case api_put_task S (''/tasks/'' @ to_string B taskId) newStatus of
           None \<Rightarrow>
             (fst (InternTasks_fetchTasks B S st),
              [put] @ broadcastTasksChanged S @ snd (InternTasks_fetchTasks B S st))
         | Some e \<Rightarrow> (st, [put, ConsoleError ''Failed to update task status:'']))
   \<and> (\<not> publish_fails S \<longrightarrow>
        broadcastTasksChanged S = (if broadcast_channel S then [PostMessage] else [StoragePing]))"
  by (simp add: updateStatus_def Let_def broadcastTasksChanged_def split: option.splits prod.splits)

text \<open>The update of task 2 with the backend up and the identifier \<^verbatim>\<open>"99"\<close> cached.\<close>

theorem updateStatus_outcomes_witness:
  "updateStatus whole_host tasks_online (JNum (Whole 2)) (JStr ''Completed'') page99 =
     (\<lparr> tasks = [row2], loading = False, userIdRef = JStr ''99'' \<rparr>,
      [ApiPutTask ''/tasks/2'' (JStr ''Completed''), PostMessage, ApiGetTasks])"
proof -
  have num: "num_to_string whole_host (Whole 2) = ''2''"
    by (simp add: whole_host_def digits_of_nat.simps decimal_digits_def)
  have put: "api_put_task tasks_online u b = None" for u b
    by (simp add: tasks_online_def)
  have pub: "broadcastTasksChanged tasks_online = [PostMessage]"
    by (simp add: broadcastTasksChanged_def tasks_online_def offline_def)
  show ?thesis
    using updateStatus_outcomes [of whole_host tasks_online "JNum (Whole 2)" "JStr ''Completed''" page99]
    by (simp add: num put pub InternTasks_fetchTasks_scenario Let_def)
qed

section \<open>Realtime changes\<close>

lemma event_kind_not_nullish: "event_kind B payload = JStr k \<Longrightarrow> \<not> nullish payload"
  by (auto simp: event_kind_def nullish_def js_or_def)

lemma strict_eq_JStr [simp]: "strict_eq B (JStr a) v = (v = JStr a)"
  by (cases v) auto

lemma js_some_same_id:
  "list_all (\<lambda>t. \<not> nullish t) ts \<Longrightarrow> js_some (same_id B row) ts = Inr (has_id_of B row ts)"
  by (induction ts) (auto simp: same_id_def get_prop_def has_id_of_def)

lemma js_filter_other_ids:
  "list_all (\<lambda>t. \<not> nullish t) ts \<Longrightarrow>
     js_filter (\<lambda>t. case same_id B row t of Inl e \<Rightarrow> Inl e | Inr b \<Rightarrow> Inr (\<not> b)) ts =
       Inr (filter (\<lambda>t. \<not> strict_eq B (js_get t ''id'') (js_get row ''id'')) ts)"
  by (induction ts) (auto simp: same_id_def get_prop_def)

lemma js_map_replace:
  "list_all (\<lambda>t. \<not> nullish t) ts \<Longrightarrow>
     js_map (\<lambda>t. case same_id B row t of Inl e \<Rightarrow> Inl e | Inr b \<Rightarrow> Inr (if b then row else t)) ts =
       Inr (map (\<lambda>t. if strict_eq B (js_get t ''id'') (js_get row ''id'') then row else t) ts)"
  by (induction ts) (auto simp: same_id_def get_prop_def)

lemma filter_absent:
  "\<not> has_id_of B row ts \<Longrightarrow>
     filter (\<lambda>t. \<not> strict_eq B (js_get t ''id'') (js_get row ''id'')) ts = ts"
  by (induction ts) (auto simp: has_id_of_def)

lemma map_absent:
  "\<not> has_id_of B row ts \<Longrightarrow>
     map (\<lambda>t. if strict_eq B (js_get t ''id'') (js_get row ''id'') then row else t) ts = ts"
  by (induction ts) (auto simp: has_id_of_def)

lemmas example_rows = row1_def row3_def row1_again_def home1_def change_def

lemmas event_parts = event_kind_def new_row_def old_row_def owned_by_def has_id_of_def
  js_or_def nullish_def

text \<open>
  Claim C5, as stated, fails for the listener of InternTasks, which answers an INSERT
  owned by the resolved identifier with \<^verbatim>\<open>fetchTasks()\<close>. With task 2 in the list and the
  identifier \<^verbatim>\<open>"99"\<close>: an INSERT carrying id 2 again, while the backend cannot be reached,
  empties the list; an INSERT carrying the new id 5, while the backend still answers with
  tasks 1 and 2, leaves the list without the new row.
\<close>

theorem InternTasks_insert_refetches:
  "owned_by whole_host (JStr ''99'') row2 \<and> has_id_of whole_host row2 (tasks page99)
   \<and> InternTasks_realtime_event whole_host offline (JStr ''99'')
        (change ''INSERT'' row2 JNull) page99 =
       (\<lparr> tasks = [], loading = False, userIdRef = JStr ''99'' \<rparr>,
        [ApiGetTasks, ConsoleError ''Failed to fetch tasks:''])
   \<and> owned_by whole_host (JStr ''99'') row5 \<and> \<not> has_id_of whole_host row5 (tasks page99)
   \<and> InternTasks_realtime_event whole_host tasks_online (JStr ''99'')
        (change ''INSERT'' row5 JNull) page99 =
       (\<lparr> tasks = [row2], loading = False, userIdRef = JStr ''99'' \<rparr>, [ApiGetTasks])"
proof -
  have num: "num_to_string whole_host (Whole 99) = ''99''"
    by (simp add: whole_host_def digits_of_nat.simps decimal_digits_def)
  have own2: "owned_by whole_host (JStr ''99'') row2"
    and own5: "owned_by whole_host (JStr ''99'') row5"
    by (simp_all add: owned_by_def row2_def row5_def num)
  have ids: "has_id_of whole_host row2 (tasks page99)"
      "\<not> has_id_of whole_host row5 (tasks page99)"
    by (simp_all add: has_id_of_def page99_def row2_def row5_def whole_host_def)
  have down: "InternTasks_fetchTasks whole_host offline page99 =
      (\<lparr> tasks = [], loading = False, userIdRef = JStr ''99'' \<rparr>,
       [ApiGetTasks, ConsoleError ''Failed to fetch tasks:''])"
    by (simp add: InternTasks_fetchTasks_def resolveUserId_def page99_def offline_def)
  have new2: "opt_chain (change ''INSERT'' row2 JNull) ''new'' = row2"
    and new5: "opt_chain (change ''INSERT'' row5 JNull) ''new'' = row5"
    by (simp_all add: change_def opt_chain_def nullish_def)
  show ?thesis
    by (simp add: InternTasks_realtime_event_def new2 new5 own2 own5 ids down
          InternTasks_fetchTasks_scenario)
qed

text \<open>
  Claim C5, amended: in InternHome. For a list of rows and an INSERT event whose new row is
  owned by the resolved identifier: when a row of the list has the id of the new row, the
  state is left as it is; otherwise the new row is put in front. Nothing is fetched. A list
  in which no two rows share an id stays such a list.
\<close>

theorem realtime_insert:
  assumes "event_kind B payload = JStr ''INSERT''"
    and "owned_by B supaUserId (new_row B payload)"
    and "home_tasks st = Items prev"
    and "list_all (\<lambda>t. \<not> nullish t) prev"
  shows "realtime_event B S user supaUserId payload st =
           Inr (if has_id_of B (new_row B payload) prev then st
                else st\<lparr>home_tasks := Items (new_row B payload # prev)\<rparr>, [])
         \<and> (distinct_ids B prev \<longrightarrow>
              distinct_ids B (if has_id_of B (new_row B payload) prev then prev
                              else new_row B payload # prev))"
proof -
  have "\<not> nullish payload"
    using assms(1) by (rule event_kind_not_nullish)
  then have "on_postgres_changes B supaUserId payload = InsertRow (new_row B payload)"
    using assms(1,2) by (simp add: on_postgres_changes_def)
  moreover have "insert_updater B (new_row B payload) (Items prev) =
      Inr (if has_id_of B (new_row B payload) prev then Items prev
           else Items (new_row B payload # prev))"
    using assms(4) by (simp add: insert_updater_def js_some_same_id)
  ultimately show ?thesis
    using assms(3) by (simp add: realtime_event_def)
qed

text \<open>With task 1 in the list: an INSERT carrying id 1 again changes nothing, an INSERT
  carrying id 3 puts its row in front.\<close>

theorem realtime_insert_witness:
  "realtime_event whole_host offline user42 (JStr ''abc-123'')
     (change ''INSERT'' row1_again JNull) home1 = Inr (home1, [])
   \<and> realtime_event whole_host offline user42 (JStr ''abc-123'')
     (change ''INSERT'' row3 JNull) home1 = Inr (home1\<lparr>home_tasks := Items [row3, row1]\<rparr>, [])"
  using realtime_insert [of whole_host "change ''INSERT'' row1_again JNull" "JStr ''abc-123''"
      home1 "[row1]" offline user42]
    realtime_insert [of whole_host "change ''INSERT'' row3 JNull" "JStr ''abc-123''"
      home1 "[row1]" offline user42]
  by (simp add: example_rows event_parts whole_host_def)

text \<open>
  Claim C6. For a list of rows and a DELETE event whose old row is owned by the resolved
  identifier: when no row of the list has the id of the deleted row, the state after the
  event is the state before it, and nothing is fetched.
\<close>

theorem realtime_delete_absent:
  assumes "event_kind B payload = JStr ''DELETE''"
    and "owned_by B supaUserId (old_row payload)"
    and "home_tasks st = Items prev"
    and "list_all (\<lambda>t. \<not> nullish t) prev"
    and "\<not> has_id_of B (old_row payload) prev"
  shows "realtime_event B S user supaUserId payload st = Inr (st, [])"
proof -
  have "\<not> nullish payload"
    using assms(1) by (rule event_kind_not_nullish)
  then have "on_postgres_changes B supaUserId payload = DeleteRow (old_row payload)"
    using assms(1,2) by (simp add: on_postgres_changes_def)
  moreover have "delete_updater B (old_row payload) (Items prev) = Inr (Items prev)"
    using assms(4,5) by (simp add: delete_updater_def js_filter_other_ids filter_absent)
  ultimately show ?thesis
    using assms(3) by (simp add: realtime_event_def)
qed

text \<open>With task 1 in the list, the deletion of task 3.\<close>

theorem realtime_delete_absent_witness:
  "realtime_event whole_host offline user42 (JStr ''abc-123'')
     (change ''DELETE'' JNull row3) home1 = Inr (home1, [])"
  using realtime_delete_absent [of whole_host "change ''DELETE'' JNull row3" "JStr ''abc-123''"
      home1 "[row1]" offline user42]
  by (simp add: example_rows event_parts whole_host_def)

text \<open>
  Claim C10. For a list of rows and an UPDATE event whose new row is owned by the resolved
  identifier: when no row of the list has the id of the updated row, the state after the
  event is the state before it. The row is not added, and nothing is fetched.
\<close>

theorem realtime_update_absent:
  assumes "event_kind B payload = JStr ''UPDATE''"
    and "owned_by B supaUserId (new_row B payload)"
    and "home_tasks st = Items prev"
    and "list_all (\<lambda>t. \<not> nullish t) prev"
    and "\<not> has_id_of B (new_row B payload) prev"
  shows "realtime_event B S user supaUserId payload st = Inr (st, [])"
proof -
  have "\<not> nullish payload"
    using assms(1) by (rule event_kind_not_nullish)
  then have "on_postgres_changes B supaUserId payload = UpdateRow (new_row B payload)"
    using assms(1,2) by (simp add: on_postgres_changes_def)
  moreover have "update_updater B (new_row B payload) (Items prev) = Inr (Items prev)"
    using assms(4,5) by (simp add: update_updater_def js_map_replace map_absent)
  ultimately show ?thesis
    using assms(3) by (simp add: realtime_event_def)
qed

text \<open>With task 1 in the list, an update of task 3.\<close>

theorem realtime_update_absent_witness:
  "realtime_event whole_host offline user42 (JStr ''abc-123'')
     (change ''UPDATE'' row3 JNull) home1 = Inr (home1, [])"
  using realtime_update_absent [of whole_host "change ''UPDATE'' row3 JNull" "JStr ''abc-123''"
      home1 "[row1]" offline user42]
  by (simp add: example_rows event_parts whole_host_def)

section \<open>The transcript\<close>

text \<open>The fallback of \<^verbatim>\<open>parseItems\<close>: a string that does not parse is exported as the one
  item it is.\<close>

lemma parseItems_fallback:
  "s \<noteq> [] \<Longrightarrow> json_parse B s = Inl e \<Longrightarrow>
     parseItems B (JStr s) = Items [JStr s] \<and> exported_texts B (JStr s) = Inr [s]"
  by (simp add: parseItems_def exported_texts_def item_text_def get_prop_def nullish_def js_or_def)

lemma item_text_plain:
  "plain_item p \<Longrightarrow> \<exists>t. item_text B p = Inr t \<and> encoded_task_text p = Some t"
  by (cases p)
    (auto simp: item_text_def get_prop_def nullish_def js_or_def
      split: jsval.splits option.splits)

lemma js_map_item_text:
  "list_all plain_item ps \<Longrightarrow>
     \<exists>texts. js_map (item_text B) ps = Inr texts \<and> map Some texts = map encoded_task_text ps
        \<and> js_map (item_line B) ps = Inr (map (\<lambda>t. '' - '' @ t) texts)"
proof (induction ps)
  case Nil
  then show ?case by simp
next
  case (Cons p ps)
  then obtain texts where t: "js_map (item_text B) ps = Inr texts"
      "map Some texts = map encoded_task_text ps"
      "js_map (item_line B) ps = Inr (map (\<lambda>t. '' - '' @ t) texts)"
    by auto
  from Cons.prems obtain t where p: "item_text B p = Inr t" "encoded_task_text p = Some t"
    using item_text_plain [of p B] by auto
  from p have l: "item_line B p = Inr ('' - '' @ t)"
    by (simp add: item_line_def)
  show ?case
    using t p l by (intro exI [of _ "t # texts"]) simp
qed

text \<open>
  Claim C7, as stated, fails. The field \<^verbatim>\<open>[{"task":""}]\<close> is a JSON-encoded array string
  whose one item encodes the empty task text; since \<^verbatim>\<open>p.task || p\<close> falls back to the item
  when its \<^verbatim>\<open>task\<close> is falsy, the export prints the item as \<^verbatim>\<open>[object Object]\<close>.
\<close>

theorem transcript_empty_task:
  "json_parse whole_host empty_task_json = Inr (JArr 102 [JObj 103 [(''task'', JStr [])]])
   \<and> map encoded_task_text [JObj 103 [(''task'', JStr [])] :: whole jsval] = [Some []]
   \<and> exported_texts whole_host (JStr empty_task_json) = Inr [''[object Object]'']"
  by (simp add: whole_host_def example_json_parse_def empty_task_json_def pending_json_def
        exported_texts_def parseItems_def item_text_def get_prop_def nullish_def js_or_def)

text \<open>
  Claim C7, amended. When the pending-items field is a string that \<^verbatim>\<open>JSON.parse\<close> reads as
  an array each of whose items is a string or an object whose \<^verbatim>\<open>task\<close> is a string that is
  not empty, the texts the export prints are the task texts encoded in the items, one for
  one and in their order (so the sets are the same), each on a line of its own behind
  \<^verbatim>\<open>" - "\<close>.
\<close>

theorem transcript_round_trip:
  assumes "json_parse B s = Inr (JArr r items)"
    and "s \<noteq> []"
    and "list_all plain_item items"
  shows "\<exists>texts. exported_texts B (JStr s) = Inr texts
           \<and> map Some texts = map encoded_task_text items
           \<and> item_lines B (JStr s) = Inr (map (\<lambda>t. '' - '' @ t) texts)"
proof -
  have "parseItems B (JStr s) = Items items"
    using assms(1,2) by (simp add: parseItems_def)
  then show ?thesis
    using js_map_item_text [OF assms(3), of B]
    by (simp add: exported_texts_def item_lines_def)
qed

text \<open>The field \<^verbatim>\<open>[{"task":"Send report"},"Book room"]\<close>, and the whole transcript of a
  meeting that has it.\<close>

theorem transcript_round_trip_witness:
  "exported_texts whole_host (JStr pending_json) = Inr [''Send report'', ''Book room'']
   \<and> item_lines whole_host (JStr pending_json) = Inr ['' - Send report'', '' - Book room'']
   \<and> transcript_content whole_host standup =
       Inr (join_with newline
         [''Meeting: Standup'', [], ''Summary:'', ''Plans'', [], ''Tasks:'', [], [],
          ''Pending:'', '' - Send report'', '' - Book room'', [], ''Created: ''])"
proof -
  have parsed: "json_parse whole_host pending_json =
      Inr (JArr 100 [JObj 101 [(''task'', JStr ''Send report'')], JStr ''Book room''])"
    by (simp add: whole_host_def example_json_parse_def)
  have nonempty: "pending_json \<noteq> []"
    by (simp add: pending_json_def)
  have texts: "exported_texts whole_host (JStr pending_json) = Inr [''Send report'', ''Book room'']"
    and lines: "item_lines whole_host (JStr pending_json) = Inr ['' - Send report'', '' - Book room'']"
    using transcript_round_trip [OF parsed nonempty] by auto
  have none: "item_lines whole_host JUndefined = Inr []"
    by (simp add: item_lines_def parseItems_def)
  have "transcript_content whole_host standup =
       Inr (join_with newline
         [''Meeting: Standup'', [], ''Summary:'', ''Plans'', [], ''Tasks:'', [], [],
          ''Pending:'', '' - Send report'', '' - Book room'', [], ''Created: ''])"
    by (simp add: transcript_content_def standup_def lines none js_or_def newline_def)
  with texts lines show ?thesis
    by simp
qed

end
